theory Spec2Isabelle
  imports Main "HOL-Library.Sublist" "HOL-Library.AList"
begin

section \<open>Python strings\<close>

text \<open>
  A Python \<open>str\<close> is a sequence of Unicode code points; \<open>ord\<close> of a character is the
  element itself. ASCII literals of the source are written with \<open>lit\<close>, characters
  outside ASCII by their code point.
\<close>

type_synonym ustr = "nat list"

definition lit :: "string \<Rightarrow> ustr" where
  "lit s = map of_char s"

text \<open>The f-string fragment \<^verbatim>\<open>\"{v}\"\<close>: the value between two double quotes, unescaped.\<close>

definition quoted :: "ustr \<Rightarrow> ustr" where
  "quoted v = 34 # v @ [34]"

text \<open>\<^verbatim>\<open>sep.join(parts)\<close>.\<close>

fun join :: "ustr \<Rightarrow> ustr list \<Rightarrow> ustr" where
  "join sep [] = []"
| "join sep [x] = x"
| "join sep (x # y # ys) = x @ sep @ join sep (y # ys)"

text \<open>\<^verbatim>\<open>if c: parts.append(t)\<close>, as the list of what is appended.\<close>

definition append_if :: "bool \<Rightarrow> 'a \<Rightarrow> 'a list" where
  "append_if c t = (if c then [t] else [])"

section \<open>The window object\<close>

text \<open>
  The attributes \<open>self.<name>_var\<close> created by the \<open>create_*_tab\<close> methods:
  seventeen \<open>tk.StringVar\<close> options and twenty-two \<open>tk.BooleanVar\<close> options. The two
  display variables \<open>status_var\<close> and \<open>progress_var\<close> are fields of the window record.
\<close>

datatype strvar = url_var | data_var | cookie_var | user_agent_var | referer_var
  | headers_var | proxy_var | risk_var | level_var | threads_var | timeout_var
  | retries_var | delay_var | output_dir_var | database_var | table_var | wordlist_var

datatype boolvar = tor_var | random_agent_var | batch_var | verbose_var
  | enum_dbs_var | enum_tables_var | enum_columns_var | enum_schema_var
  | dump_all_var | dump_table_var | dump_columns_var | count_var
  | common_tables_var | common_columns_var
  | tech_boolean_var | tech_error_var | tech_union_var | tech_stacked_var
  | tech_time_var | tech_inline_var | os_detect_var | dbms_detect_var

text \<open>Values held by a preset dictionary: Python strings and booleans.\<close>

datatype pyval = PStr ustr | PBool bool

type_synonym preset = "(ustr \<times> pyval) list"

text \<open>Calls of \<open>messagebox\<close>, with title and message, in the order they are made.\<close>

datatype dialog = ShowError ustr ustr | ShowWarning ustr ustr | ShowInfo ustr ustr
  | AskYesNo ustr ustr

datatype pyerror = KeyError ustr | TclError ustr

record gui =
  current_command :: ustr
  is_running :: bool
  output_buffer :: ustr
  strvars :: "strvar \<Rightarrow> ustr"
  boolvars :: "boolvar \<Rightarrow> bool"
  status_var :: ustr
  progress_var :: ustr
  command_text :: ustr
  output_text :: ustr
  presets :: "(ustr \<times> preset) list"
  preset_listbox :: "ustr list"
  dialogs :: "dialog list"

definition messagebox :: "dialog \<Rightarrow> gui \<Rightarrow> gui" where
  "messagebox d g = g\<lparr>dialogs := dialogs g @ [d]\<rparr>"

section \<open>generate_command\<close>

text \<open>The list \<open>techniques\<close> of lines 652 to 664.\<close>

definition techniques :: "gui \<Rightarrow> ustr list" where
  "techniques g =
     append_if (boolvars g tech_boolean_var) (lit ''B'')
   @ append_if (boolvars g tech_error_var) (lit ''E'')
   @ append_if (boolvars g tech_union_var) (lit ''U'')
   @ append_if (boolvars g tech_stacked_var) (lit ''S'')
   @ append_if (boolvars g tech_time_var) (lit ''T'')
   @ append_if (boolvars g tech_inline_var) (lit ''Q'')"

text \<open>The list \<open>command_parts\<close> when line 679 is reached.\<close>

definition command_parts :: "gui \<Rightarrow> ustr list" where
  "command_parts g =
     [lit ''sqlmap'']
   @ append_if (strvars g url_var \<noteq> []) (lit ''-u '' @ quoted (strvars g url_var))
   @ append_if (strvars g data_var \<noteq> []) (lit ''--data='' @ quoted (strvars g data_var))
   @ append_if (strvars g cookie_var \<noteq> []) (lit ''--cookie='' @ quoted (strvars g cookie_var))
   @ append_if (strvars g user_agent_var \<noteq> [])
       (lit ''--user-agent='' @ quoted (strvars g user_agent_var))
   @ append_if (strvars g referer_var \<noteq> []) (lit ''--referer='' @ quoted (strvars g referer_var))
   @ append_if (strvars g headers_var \<noteq> []) (lit ''--headers='' @ quoted (strvars g headers_var))
   @ append_if (strvars g proxy_var \<noteq> []) (lit ''--proxy='' @ quoted (strvars g proxy_var))
   @ append_if (strvars g risk_var \<noteq> lit ''1'') (lit ''--risk='' @ strvars g risk_var)
   @ append_if (strvars g level_var \<noteq> lit ''1'') (lit ''--level='' @ strvars g level_var)
   @ append_if (strvars g threads_var \<noteq> lit ''1'') (lit ''--threads='' @ strvars g threads_var)
   @ append_if (strvars g timeout_var \<noteq> lit ''30'') (lit ''--timeout='' @ strvars g timeout_var)
   @ append_if (strvars g retries_var \<noteq> lit ''3'') (lit ''--retries='' @ strvars g retries_var)
   @ append_if (strvars g delay_var \<noteq> lit ''0'') (lit ''--delay='' @ strvars g delay_var)
   @ append_if (boolvars g tor_var) (lit ''--tor'')
   @ append_if (boolvars g random_agent_var) (lit ''--random-agent'')
   @ append_if (boolvars g batch_var) (lit ''--batch'')
   @ append_if (boolvars g verbose_var) (lit ''-v'')
   @ append_if (boolvars g enum_dbs_var) (lit ''--dbs'')
   @ append_if (boolvars g enum_tables_var) (lit ''--tables'')
   @ append_if (boolvars g enum_columns_var) (lit ''--columns'')
   @ append_if (boolvars g enum_schema_var) (lit ''--schema'')
   @ append_if (strvars g database_var \<noteq> []) (lit ''-D '' @ quoted (strvars g database_var))
   @ append_if (strvars g table_var \<noteq> []) (lit ''-T '' @ quoted (strvars g table_var))
   @ append_if (boolvars g dump_all_var) (lit ''--dump-all'')
   @ append_if (boolvars g dump_table_var) (lit ''--dump'')
   @ append_if (boolvars g dump_columns_var) (lit ''--dump-columns'')
   @ append_if (boolvars g count_var) (lit ''--count'')
   @ append_if (boolvars g common_tables_var) (lit ''--common-tables'')
   @ append_if (boolvars g common_columns_var) (lit ''--common-columns'')
   @ append_if (strvars g wordlist_var \<noteq> []) (lit ''--wordlist='' @ quoted (strvars g wordlist_var))
   @ append_if (techniques g \<noteq> []) (lit ''--technique='' @ concat (techniques g))
   @ append_if (boolvars g os_detect_var) (lit ''--os-detect'')
   @ append_if (boolvars g dbms_detect_var) (lit ''--dbms-detect'')
   @ append_if (strvars g output_dir_var \<noteq> [])
       (lit ''--output-dir='' @ quoted (strvars g output_dir_var))"

definition generate_command :: "gui \<Rightarrow> gui" where
  "generate_command g =
     (let cmd = join (lit '' '') (command_parts g)
      in g\<lparr>current_command := cmd,
            command_text := cmd,
            status_var := [0x2705] @ lit '' Command generated successfully'',
            progress_var := [0x1f527] @ lit '' Ready to execute''\<rparr>)"

section \<open>Presets\<close>

text \<open>The dictionary literal of \<open>load_presets\<close>, in the order it is written.\<close>

definition builtin_presets :: "(ustr \<times> preset) list" where
  "builtin_presets =
     [([0x1f680] @ lit '' Quick Scan'',
         [(lit ''risk'', PStr (lit ''2'')), (lit ''level'', PStr (lit ''3'')),
          (lit ''batch'', PBool True), (lit ''verbose'', PBool True),
          (lit ''random_agent'', PBool True)]),
      ([0x1f50d] @ lit '' Comprehensive Scan'',
         [(lit ''risk'', PStr (lit ''3'')), (lit ''level'', PStr (lit ''5'')),
          (lit ''threads'', PStr (lit ''10'')), (lit ''batch'', PBool True),
          (lit ''verbose'', PBool True), (lit ''enum_dbs'', PBool True),
          (lit ''enum_tables'', PBool True), (lit ''enum_columns'', PBool True),
          (lit ''random_agent'', PBool True)]),
      ([0x1f4ca] @ lit '' Database Enumeration'',
         [(lit ''risk'', PStr (lit ''2'')), (lit ''level'', PStr (lit ''3'')),
          (lit ''batch'', PBool True), (lit ''enum_dbs'', PBool True),
          (lit ''enum_tables'', PBool True), (lit ''enum_columns'', PBool True),
          (lit ''verbose'', PBool True)]),
      ([0x1f4be] @ lit '' Data Extraction'',
         [(lit ''risk'', PStr (lit ''3'')), (lit ''level'', PStr (lit ''4'')),
          (lit ''batch'', PBool True), (lit ''dump_all'', PBool True),
          (lit ''verbose'', PBool True), (lit ''random_agent'', PBool True)]),
      ([0x1f3af] @ lit '' Stealth Mode'',
         [(lit ''risk'', PStr (lit ''1'')), (lit ''level'', PStr (lit ''2'')),
          (lit ''delay'', PStr (lit ''2'')), (lit ''batch'', PBool True),
          (lit ''tor'', PBool True), (lit ''random_agent'', PBool True)]),
      ([0x26a1] @ lit '' Aggressive Scan'',
         [(lit ''risk'', PStr (lit ''3'')), (lit ''level'', PStr (lit ''5'')),
          (lit ''threads'', PStr (lit ''15'')), (lit ''batch'', PBool True),
          (lit ''verbose'', PBool True), (lit ''enum_dbs'', PBool True),
          (lit ''enum_tables'', PBool True), (lit ''enum_columns'', PBool True),
          (lit ''dump_all'', PBool True)])]"

text \<open>
  \<open>load_presets\<close> assigns the literal to \<open>self.presets\<close> and fills the listbox with its
  keys, whatever the dictionary held before.
\<close>

definition load_presets :: "gui \<Rightarrow> gui" where
  "load_presets g =
     (let ps = builtin_presets
      in g\<lparr>presets := ps, preset_listbox := map fst ps\<rparr>)"

section \<open>The window after \<open>__init__\<close>\<close>

definition default_strvars :: "strvar \<Rightarrow> ustr" where
  "default_strvars =
     (\<lambda>v. [])(risk_var := lit ''1'', level_var := lit ''1'', threads_var := lit ''1'',
              timeout_var := lit ''30'', retries_var := lit ''3'', delay_var := lit ''0'')"

definition default_boolvars :: "boolvar \<Rightarrow> bool" where
  "default_boolvars = (\<lambda>v. False)"

definition init_gui :: gui where
  "init_gui =
     load_presets
       \<lparr>current_command = [], is_running = False, output_buffer = [],
        strvars = default_strvars, boolvars = default_boolvars,
        status_var = [0x1f7e2] @ lit '' Ready - Enter target URL to begin scanning'',
        progress_var = [],
        command_text = [], output_text = [],
        presets = [], preset_listbox = [], dialogs = []\<rparr>"

section \<open>Reflection over the Tk variables\<close>

datatype tkvar = StrVar strvar | BoolVar boolvar | StatusVar | ProgressVar

text \<open>
  The attributes of the window whose name ends in \<open>_var\<close>, in the order \<open>dir(self)\<close>
  lists them (sorted by name). Every one of them is a Tk variable and has \<open>get\<close>.
\<close>

definition var_attrs :: "(string \<times> tkvar) list" where
  "var_attrs =
     [(''batch_var'', BoolVar batch_var),
      (''common_columns_var'', BoolVar common_columns_var),
      (''common_tables_var'', BoolVar common_tables_var),
      (''cookie_var'', StrVar cookie_var),
      (''count_var'', BoolVar count_var),
      (''data_var'', StrVar data_var),
      (''database_var'', StrVar database_var),
      (''dbms_detect_var'', BoolVar dbms_detect_var),
      (''delay_var'', StrVar delay_var),
      (''dump_all_var'', BoolVar dump_all_var),
      (''dump_columns_var'', BoolVar dump_columns_var),
      (''dump_table_var'', BoolVar dump_table_var),
      (''enum_columns_var'', BoolVar enum_columns_var),
      (''enum_dbs_var'', BoolVar enum_dbs_var),
      (''enum_schema_var'', BoolVar enum_schema_var),
      (''enum_tables_var'', BoolVar enum_tables_var),
      (''headers_var'', StrVar headers_var),
      (''level_var'', StrVar level_var),
      (''os_detect_var'', BoolVar os_detect_var),
      (''output_dir_var'', StrVar output_dir_var),
      (''progress_var'', ProgressVar),
      (''proxy_var'', StrVar proxy_var),
      (''random_agent_var'', BoolVar random_agent_var),
      (''referer_var'', StrVar referer_var),
      (''retries_var'', StrVar retries_var),
      (''risk_var'', StrVar risk_var),
      (''status_var'', StatusVar),
      (''table_var'', StrVar table_var),
      (''tech_boolean_var'', BoolVar tech_boolean_var),
      (''tech_error_var'', BoolVar tech_error_var),
      (''tech_inline_var'', BoolVar tech_inline_var),
      (''tech_stacked_var'', BoolVar tech_stacked_var),
      (''tech_time_var'', BoolVar tech_time_var),
      (''tech_union_var'', BoolVar tech_union_var),
      (''threads_var'', StrVar threads_var),
      (''timeout_var'', StrVar timeout_var),
      (''tor_var'', BoolVar tor_var),
      (''url_var'', StrVar url_var),
      (''user_agent_var'', StrVar user_agent_var),
      (''verbose_var'', BoolVar verbose_var),
      (''wordlist_var'', StrVar wordlist_var)]"

text \<open>\<open>getattr(self, name)\<close> for a name ending in \<open>_var\<close>; \<open>None\<close> when \<open>hasattr\<close> is false.\<close>

definition getattr_var :: "ustr \<Rightarrow> tkvar option" where
  "getattr_var name = map_of (map (\<lambda>(n, v). (lit n, v)) var_attrs) name"

text \<open>\<open>var.get()\<close>: a string for a \<open>StringVar\<close>, a boolean for a \<open>BooleanVar\<close>.\<close>

fun var_get :: "tkvar \<Rightarrow> gui \<Rightarrow> pyval" where
  "var_get (StrVar v) g = PStr (strvars g v)"
| "var_get (BoolVar v) g = PBool (boolvars g v)"
| "var_get StatusVar g = PStr (status_var g)"
| "var_get ProgressVar g = PStr (progress_var g)"

text \<open>
  What Tcl does with a value of the other kind is not code of this program: the string a
  \<open>StringVar\<close> holds after it is set to a boolean, and \<open>getboolean\<close> of a string, which
  raises \<open>TclError\<close> on a string that is no boolean. Both are parameters.
\<close>

record tcl =
  tcl_string_of_bool :: "bool \<Rightarrow> ustr"
  tcl_getboolean :: "ustr \<Rightarrow> bool option"

fun tk_string :: "tcl \<Rightarrow> pyval \<Rightarrow> ustr" where
  "tk_string tc (PStr s) = s"
| "tk_string tc (PBool b) = tcl_string_of_bool tc b"

fun tk_boolean :: "tcl \<Rightarrow> pyval \<Rightarrow> bool option" where
  "tk_boolean tc (PBool b) = Some b"
| "tk_boolean tc (PStr s) = tcl_getboolean tc s"

text \<open>\<open>var.set(value)\<close>.\<close>

fun var_set :: "tcl \<Rightarrow> tkvar \<Rightarrow> pyval \<Rightarrow> gui \<Rightarrow> pyerror + gui" where
  "var_set tc (StrVar v) x g = Inr (g\<lparr>strvars := (strvars g)(v := tk_string tc x)\<rparr>)"
| "var_set tc StatusVar x g = Inr (g\<lparr>status_var := tk_string tc x\<rparr>)"
| "var_set tc ProgressVar x g = Inr (g\<lparr>progress_var := tk_string tc x\<rparr>)"
| "var_set tc (BoolVar v) x g =
     (case tk_boolean tc x of
        None \<Rightarrow> Inl (TclError (tk_string tc x))
      | Some b \<Rightarrow> Inr (g\<lparr>boolvars := (boolvars g)(v := b)\<rparr>))"

text \<open>
  The loop of \<open>load_preset\<close> over \<open>preset.items()\<close>. An exception leaves the loop with
  the variables set so far.
\<close>

fun apply_preset :: "tcl \<Rightarrow> preset \<Rightarrow> gui \<Rightarrow> gui \<times> pyerror option" where
  "apply_preset tc [] g = (g, None)"
| "apply_preset tc ((key, value) # rest) g =
     (case getattr_var (key @ lit ''_var'') of
        None \<Rightarrow> apply_preset tc rest g
      | Some var \<Rightarrow>
          (case var_set tc var value g of
             Inl e \<Rightarrow> (g, Some e)
           | Inr g' \<Rightarrow> apply_preset tc rest g'))"

text \<open>\<open>listbox.get(i)\<close>: the entry, or the empty string past the end.\<close>

definition listbox_get :: "ustr list \<Rightarrow> nat \<Rightarrow> ustr" where
  "listbox_get xs i = (if i < length xs then xs ! i else [])"

text \<open>
  \<open>load_preset\<close>; \<open>selection\<close> is the first index of \<open>curselection()\<close>, \<open>None\<close> when
  nothing is selected.
\<close>

definition load_preset :: "tcl \<Rightarrow> nat option \<Rightarrow> gui \<Rightarrow> gui \<times> pyerror option" where
  "load_preset tc selection g =
     (case selection of
        None \<Rightarrow>
          (messagebox (ShowWarning (lit ''Warning'') (lit ''Please select a preset to load'')) g,
           None)
      | Some i \<Rightarrow>
          (let preset_name = listbox_get (preset_listbox g) i
           in case map_of (presets g) preset_name of
                None \<Rightarrow> (g, Some (KeyError preset_name))
              | Some preset \<Rightarrow>
                  (case apply_preset tc preset g of
                     (g', Some e) \<Rightarrow> (g', Some e)
                   | (g', None) \<Rightarrow>
                       (messagebox
                          (ShowInfo (lit ''Success'')
                             ([0x2705] @ lit '' Preset '' @ [39] @ preset_name @ [39]
                              @ lit '' loaded successfully!''))
                          (g'\<lparr>status_var := [0x2705] @ lit '' Loaded preset: '' @ preset_name,
                              progress_var := [0x2699, 0xfe0f] @ lit '' Preset applied''\<rparr>),
                        None))))"

text \<open>Lines 897 and 898 of \<open>save_preset\<close>: the key the preset is stored under.\<close>

definition preset_key :: "ustr \<Rightarrow> ustr" where
  "preset_key preset_name =
     (if \<not> list_ex (\<lambda>char. char > 127) preset_name
      then [0x2699, 0xfe0f] @ lit '' '' @ preset_name
      else preset_name)"

text \<open>Python truthiness of a value read from a variable.\<close>

fun truthy :: "pyval \<Rightarrow> bool" where
  "truthy (PStr s) = (s \<noteq> [])"
| "truthy (PBool b) = b"

text \<open>Lines 901 to 908: the dictionary \<open>preset\<close> collected from the variables.\<close>

definition collect_settings :: "gui \<Rightarrow> preset" where
  "collect_settings g =
     map (\<lambda>(attr_name, var). (lit (take (length attr_name - 4) attr_name), var_get var g))
       (filter (\<lambda>(attr_name, var). truthy (var_get var g)) var_attrs)"

text \<open>
  The assignment of line 910, with the key of lines 897 and 898 and the settings
  collected in lines 901 to 908.
\<close>

definition save_preset_store :: "ustr \<Rightarrow> gui \<Rightarrow> gui" where
  "save_preset_store preset_name g =
     g\<lparr>presets := AList.update (preset_key preset_name) (collect_settings g) (presets g)\<rparr>"

text \<open>
  \<open>save_preset\<close> from the dialog to the assignment of line 910: the window right after
  the assignment, \<open>None\<close> when the method has returned before it.
\<close>

definition save_preset_assigned :: "ustr option \<Rightarrow> gui \<Rightarrow> gui option" where
  "save_preset_assigned answer g =
     (case answer of
        None \<Rightarrow> None
      | Some preset_name \<Rightarrow>
          if preset_name = [] then None else Some (save_preset_store preset_name g))"

text \<open>
  \<open>save_preset\<close>; \<open>answer\<close> is what \<open>askstring\<close> returns, \<open>None\<close> when the dialog is
  cancelled.
\<close>

definition save_preset :: "ustr option \<Rightarrow> gui \<Rightarrow> gui" where
  "save_preset answer g =
     (case answer of
        None \<Rightarrow> g
      | Some preset_name \<Rightarrow>
          if preset_name = [] then g
          else
            (let g1 = load_presets (save_preset_store preset_name g);
                 name = preset_key preset_name
             in messagebox
                  (ShowInfo (lit ''Success'')
                     ([0x2705] @ lit '' Preset '' @ [39] @ name @ [39]
                      @ lit '' saved successfully!''))
                  (g1\<lparr>status_var := [0x2705] @ lit '' Preset '' @ [39] @ name @ [39]
                                       @ lit '' saved'',
                      progress_var := [0x1f4be] @ lit '' Saved''\<rparr>)))"

text \<open>
  \<open>delete_preset\<close>; \<open>confirm\<close> is the answer to \<open>askyesno\<close>.
\<close>

definition delete_preset :: "nat option \<Rightarrow> bool \<Rightarrow> gui \<Rightarrow> gui \<times> pyerror option" where
  "delete_preset selection confirm g =
     (case selection of
        None \<Rightarrow>
          (messagebox (ShowWarning (lit ''Warning'') (lit ''Please select a preset to delete'')) g,
           None)
      | Some i \<Rightarrow>
          (let preset_name = listbox_get (preset_listbox g) i;
               g0 = messagebox
                      (AskYesNo ([0x1f5d1, 0xfe0f] @ lit '' Confirm Deletion'')
                         (lit ''Are you sure you want to delete preset '' @ [39] @ preset_name
                          @ [39] @ lit ''?'')) g
           in if \<not> confirm then (g0, None)
              else if map_of (presets g0) preset_name = None
              then (g0, Some (KeyError preset_name))
              else
                (let g1 = load_presets (g0\<lparr>presets := AList.delete preset_name (presets g0)\<rparr>)
                 in (messagebox
                       (ShowInfo (lit ''Success'')
                          ([0x2705] @ lit '' Preset '' @ [39] @ preset_name @ [39]
                           @ lit '' deleted successfully!''))
                       (g1\<lparr>status_var := [0x1f5d1, 0xfe0f] @ lit '' Preset '' @ [39]
                                            @ preset_name @ [39] @ lit '' deleted'',
                           progress_var := []\<rparr>),
                     None))))"

section \<open>Execution\<close>

text \<open>
  \<open>execute_sqlmap\<close>; \<open>now\<close> is the formatted \<open>datetime.now()\<close>. The second component
  is the command the new worker thread runs, \<open>None\<close> when no thread is started.
\<close>

definition execute_sqlmap :: "ustr \<Rightarrow> gui \<Rightarrow> gui \<times> ustr option" where
  "execute_sqlmap now g =
     (if current_command g = []
      then (messagebox (ShowError (lit ''Error'') (lit ''Please generate a command first'')) g,
            None)
      else if is_running g
      then (messagebox (ShowWarning (lit ''Warning'') (lit ''SQLMap is already running'')) g,
            None)
      else
        (g\<lparr>is_running := True,
           status_var := [0x1f7e1] @ lit '' Executing SQLMap...'',
           progress_var := [0x23f3] @ lit '' Initializing...'',
           output_text :=
               replicate 80 61 @ [10]
             @ [0x1f512] @ lit '' SQLMap Professional Scanner - Execution Started'' @ [10]
             @ [0x23f0] @ lit '' Time: '' @ now @ [10]
             @ [0x1f3af] @ lit '' Command: '' @ current_command g @ [10]
             @ replicate 80 61 @ [10, 10]\<rparr>,
         Some (current_command g)))"

text \<open>
  What the external process does, as the worker thread sees it: \<open>Popen\<close> raises; or
  the strings \<open>readline\<close> returns and then an exception of \<open>readline\<close>; or the
  strings \<open>readline\<close> returns up to the end of the stream and the exit status \<open>wait\<close>
  returns.
\<close>

datatype process = PopenRaises ustr | ReadRaises "ustr list" ustr | Exits "ustr list" int

text \<open>The calls the worker hands to the main loop with \<open>root.after(0, ...)\<close>.\<close>

datatype callback = UpdateOutput ustr | ExecutionFinished | ExecutionError ustr

text \<open>\<open>iter(process.stdout.readline, '')\<close> stops at the first empty string.\<close>

definition read_lines :: "ustr list \<Rightarrow> callback list" where
  "read_lines lines =
     map UpdateOutput (filter (\<lambda>line. line \<noteq> []) (takeWhile (\<lambda>line. line \<noteq> []) lines))"

text \<open>
  \<open>_run_sqlmap\<close>: the callbacks scheduled, in order. An empty string ends the loop as
  the end of the stream does: an exception of a later \<open>readline\<close> is never reached, and
  the worker goes on to \<open>wait\<close> and \<open>_execution_finished\<close>.
\<close>

fun run_sqlmap :: "process \<Rightarrow> callback list" where
  "run_sqlmap (PopenRaises e) = [ExecutionError e]"
| "run_sqlmap (ReadRaises lines e) =
     read_lines lines
     @ [if list_ex (\<lambda>line. line = []) lines then ExecutionFinished else ExecutionError e]"
| "run_sqlmap (Exits lines status) = read_lines lines @ [ExecutionFinished]"

definition update_output :: "ustr \<Rightarrow> gui \<Rightarrow> gui" where
  "update_output line g = g\<lparr>output_text := output_text g @ line\<rparr>"

definition execution_finished :: "ustr \<Rightarrow> gui \<Rightarrow> gui" where
  "execution_finished now g =
     messagebox
       (ShowInfo (lit ''Success'') ([0x1f389] @ lit '' SQLMap execution completed successfully!''))
       (g\<lparr>is_running := False,
          status_var := [0x1f7e2] @ lit '' SQLMap execution completed successfully'',
          progress_var := [0x2705] @ lit '' Done'',
          output_text :=
              output_text g
            @ [10] @ replicate 80 61 @ [10]
            @ [0x2705] @ lit '' SQLMap execution completed successfully'' @ [10]
            @ [0x23f0] @ lit '' Completed at: '' @ now @ [10]
            @ replicate 80 61 @ [10]\<rparr>)"

definition execution_error :: "ustr \<Rightarrow> ustr \<Rightarrow> gui \<Rightarrow> gui" where
  "execution_error error now g =
     messagebox
       (ShowError (lit ''Error'') ([0x274c] @ lit '' SQLMap execution failed:'' @ [10] @ error))
       (g\<lparr>is_running := False,
          status_var := [0x1f534] @ lit '' SQLMap execution failed'',
          progress_var := [0x274c] @ lit '' Error'',
          output_text :=
              output_text g
            @ [10] @ replicate 80 61 @ [10]
            @ [0x274c] @ lit '' SQLMap execution failed'' @ [10]
            @ [0x1f6a8] @ lit '' Error: '' @ error @ [10]
            @ [0x23f0] @ lit '' Failed at: '' @ now @ [10]
            @ replicate 80 61 @ [10]\<rparr>)"

fun run_callback :: "ustr \<Rightarrow> callback \<Rightarrow> gui \<Rightarrow> gui" where
  "run_callback now (UpdateOutput line) g = update_output line g"
| "run_callback now ExecutionFinished g = execution_finished now g"
| "run_callback now (ExecutionError error) g = execution_error error now g"

definition stop_execution :: "gui \<Rightarrow> gui" where
  "stop_execution g =
     (if is_running g
      then messagebox
             (ShowInfo (lit ''Info'')
                (lit ''Stop functionality would terminate the SQLMap process''))
             (g\<lparr>is_running := False, status_var := lit ''Stopping SQLMap...''\<rparr>)
      else g)"

definition clear_output :: "gui \<Rightarrow> gui" where
  "clear_output g =
     g\<lparr>output_text := [], command_text := [],
       status_var := [0x1f5d1, 0xfe0f] @ lit '' Output cleared'',
       progress_var := []\<rparr>"

text \<open>
  \<open>save_output\<close> writes a file and reports; \<open>filename\<close> is the answer of the file
  dialog (empty when cancelled), \<open>write_error\<close> the exception of the write, if any.
\<close>

definition save_output :: "ustr \<Rightarrow> ustr option \<Rightarrow> gui \<Rightarrow> gui" where
  "save_output filename write_error g =
     (if filename = [] then g
      else case write_error of
             None \<Rightarrow> messagebox (ShowInfo (lit ''Success'') (lit ''Output saved to '' @ filename)) g
           | Some e \<Rightarrow>
               messagebox (ShowError (lit ''Error'') (lit ''Failed to save output: '' @ e)) g)"

definition quick_scan :: "ustr \<Rightarrow> gui \<Rightarrow> gui \<times> ustr option" where
  "quick_scan now g =
     (if strvars g url_var = []
      then (messagebox (ShowError (lit ''Error'') (lit ''Please enter a target URL first'')) g,
            None)
      else
        (let g1 = g\<lparr>strvars := (strvars g)(risk_var := lit ''2'', level_var := lit ''3''),
                    boolvars := (boolvars g)(batch_var := True, verbose_var := True,
                                             random_agent_var := True)\<rparr>;
             (g2, started) = execute_sqlmap now (generate_command g1)
         in (g2\<lparr>status_var := [0x1f7e1] @ lit '' Quick scan initiated...'',
                progress_var := [0x23f3] @ lit '' Scanning...''\<rparr>,
             started)))"

section \<open>The window together with its worker threads\<close>

text \<open>
  The window keeps no handle on the threads it starts. \<open>sessions\<close> lists the commands
  of the worker threads started by \<open>execute_sqlmap\<close> whose final callback
  (\<open>_execution_finished\<close> or \<open>_execution_error\<close>) has not run yet. It counts live
  workers: each of them calls \<open>Popen\<close> once, and until its final callback its process,
  if it was started, has not been waited for. A worker that ends with \<open>_execution_error\<close>
  after a failed read neither kills nor waits for its process, which is no longer counted.
\<close>

record world =
  window :: gui
  sessions :: "ustr list"

datatype event =
    SetString strvar ustr
  | SetBoolean boolvar bool
  | GenerateCommand
  | ExecuteSqlmap ustr
  | QuickScan ustr
  | StopExecution
  | ClearOutput
  | SaveOutput ustr "ustr option"
  | LoadPreset "nat option"
  | SavePreset "ustr option"
  | DeletePreset "nat option" bool
  | Worker nat callback ustr

definition start_thread :: "gui \<times> ustr option \<Rightarrow> world \<Rightarrow> world" where
  "start_thread r w =
     (case r of
        (g, None) \<Rightarrow> w\<lparr>window := g\<rparr>
      | (g, Some cmd) \<Rightarrow> w\<lparr>window := g, sessions := sessions w @ [cmd]\<rparr>)"

text \<open>
  One event of the main loop. \<open>Worker i cb now\<close> is a callback of the \<open>i\<close>-th live
  worker; its last callback ends the session.
\<close>

fun step :: "tcl \<Rightarrow> event \<Rightarrow> world \<Rightarrow> world" where
  "step tc (SetString v s) w =
     w\<lparr>window := (window w)\<lparr>strvars := (strvars (window w))(v := s)\<rparr>\<rparr>"
| "step tc (SetBoolean v b) w =
     w\<lparr>window := (window w)\<lparr>boolvars := (boolvars (window w))(v := b)\<rparr>\<rparr>"
| "step tc GenerateCommand w = w\<lparr>window := generate_command (window w)\<rparr>"
| "step tc (ExecuteSqlmap now) w = start_thread (execute_sqlmap now (window w)) w"
| "step tc (QuickScan now) w = start_thread (quick_scan now (window w)) w"
| "step tc StopExecution w = w\<lparr>window := stop_execution (window w)\<rparr>"
| "step tc ClearOutput w = w\<lparr>window := clear_output (window w)\<rparr>"
| "step tc (SaveOutput filename write_error) w =
     w\<lparr>window := save_output filename write_error (window w)\<rparr>"
| "step tc (LoadPreset selection) w = w\<lparr>window := fst (load_preset tc selection (window w))\<rparr>"
| "step tc (SavePreset answer) w = w\<lparr>window := save_preset answer (window w)\<rparr>"
| "step tc (DeletePreset selection confirm) w =
     w\<lparr>window := fst (delete_preset selection confirm (window w))\<rparr>"
| "step tc (Worker i (UpdateOutput line) now) w =
     (if i < length (sessions w) then w\<lparr>window := update_output line (window w)\<rparr> else w)"
| "step tc (Worker i cb now) w =
     (if i < length (sessions w)
      then w\<lparr>window := run_callback now cb (window w),
             sessions := take i (sessions w) @ drop (Suc i) (sessions w)\<rparr>
      else w)"

fun run_events :: "tcl \<Rightarrow> event list \<Rightarrow> world \<Rightarrow> world" where
  "run_events tc [] w = w"
| "run_events tc (e # es) w = run_events tc es (step tc e w)"

definition init_world :: world where
  "init_world = \<lparr>window = init_gui, sessions = []\<rparr>"

section \<open>Reading a compiled command\<close>

text \<open>
  The letters that follow \<open>--technique=\<close> among the tokens of a command.
\<close>

definition technique_letters :: "ustr list \<Rightarrow> ustr" where
  "technique_letters parts =
     concat (map (drop (length (lit ''--technique='')))
                 (filter (prefix (lit ''--technique='')) parts))"

text \<open>The main loop runs the callbacks of one worker in the order they were scheduled.\<close>

fun run_callbacks :: "ustr \<Rightarrow> callback list \<Rightarrow> gui \<Rightarrow> gui" where
  "run_callbacks now [] g = g"
| "run_callbacks now (cb # cbs) g = run_callbacks now cbs (run_callback now cb g)"

text \<open>
  A sample of the Tcl conversions, for evaluating the model on concrete inputs: booleans
  print as \<open>1\<close> and \<open>0\<close>, and these two strings read back as booleans.
\<close>

definition sample_tcl :: tcl where
  "sample_tcl =
     \<lparr>tcl_string_of_bool = (\<lambda>b. if b then lit ''1'' else lit ''0''),
      tcl_getboolean = (\<lambda>s. if s = lit ''1'' then Some True
                              else if s = lit ''0'' then Some False else None)\<rparr>"

section \<open>Properties of the command compiler\<close>

lemma filter_append_if: "filter P (append_if c t) = append_if (c \<and> P t) t"
  by (simp add: append_if_def)

lemma append_if_False: "append_if False t = []"
  by (simp add: append_if_def)

lemma set_append_if: "x \<in> set (append_if c t) \<longleftrightarrow> c \<and> x = t"
  by (auto simp add: append_if_def)

lemma technique_filter:
  "filter (prefix (lit ''--technique='')) (command_parts g) =
     append_if (techniques g \<noteq> []) (lit ''--technique='' @ concat (techniques g))"
  by (simp add: command_parts_def filter_append_if append_if_False lit_def quoted_def)

lemma technique_letters_command:
  "technique_letters (command_parts g) = concat (techniques g)"
  unfolding technique_letters_def technique_filter
  by (cases "techniques g = []") (simp_all add: append_if_def lit_def)

lemma technique_filter_letters:
  "filter (prefix (lit ''--technique='')) (command_parts g) =
     (if boolvars g tech_boolean_var \<or> boolvars g tech_error_var \<or> boolvars g tech_union_var
         \<or> boolvars g tech_stacked_var \<or> boolvars g tech_time_var \<or> boolvars g tech_inline_var
      then [lit ''--technique=''
            @ (if boolvars g tech_boolean_var then lit ''B'' else [])
            @ (if boolvars g tech_error_var then lit ''E'' else [])
            @ (if boolvars g tech_union_var then lit ''U'' else [])
            @ (if boolvars g tech_stacked_var then lit ''S'' else [])
            @ (if boolvars g tech_time_var then lit ''T'' else [])
            @ (if boolvars g tech_inline_var then lit ''Q'' else [])]
      else [])"
  unfolding technique_filter
  by (simp add: techniques_def append_if_def)

text \<open>
  C4. Among the tokens of the command there is a token starting with \<open>--technique=\<close>
  exactly when one of the six technique booleans is true; there is then one such token,
  and after \<open>--technique=\<close> it holds the letters of the true booleans in the order
  B, E, U, S, T, Q (boolean-blind, error-based, union-based, stacked queries, time-blind,
  inline queries). Ticking time-blind and then boolean-blind in a fresh window gives
  \<open>--technique=BT\<close>.
\<close>

theorem technique_token:
  "filter (prefix (lit ''--technique='')) (command_parts g) =
     (if boolvars g tech_boolean_var \<or> boolvars g tech_error_var \<or> boolvars g tech_union_var
         \<or> boolvars g tech_stacked_var \<or> boolvars g tech_time_var \<or> boolvars g tech_inline_var
      then [lit ''--technique=''
            @ (if boolvars g tech_boolean_var then lit ''B'' else [])
            @ (if boolvars g tech_error_var then lit ''E'' else [])
            @ (if boolvars g tech_union_var then lit ''U'' else [])
            @ (if boolvars g tech_stacked_var then lit ''S'' else [])
            @ (if boolvars g tech_time_var then lit ''T'' else [])
            @ (if boolvars g tech_inline_var then lit ''Q'' else [])]
      else [])
   \<and> filter (prefix (lit ''--technique=''))
        (command_parts (window (run_events tc
           [SetBoolean tech_time_var True, SetBoolean tech_boolean_var True] init_world)))
     = [lit ''--technique=BT'']"
  unfolding technique_filter_letters
  by (simp add: init_world_def init_gui_def load_presets_def default_boolvars_def lit_def)

lemmas omit_simps = command_parts_def filter_append filter.simps filter_append_if
  append_if_False lit_def quoted_def set_append set_append_if

text \<open>
  C5. An option left at its declared default contributes no token: an empty text option
  leaves no token starting with its flag, an option of the advanced tab at its default
  (risk 1, level 1, threads 1, timeout 30, retries 3, delay 0) leaves no \<open>--flag=\<close>
  token, a false boolean leaves its bare flag out of the command, and a false technique
  boolean leaves its letter out of the technique token.
\<close>

theorem default_omission:
  "(strvars g url_var = [] \<longrightarrow> filter (prefix (lit ''-u '')) (command_parts g) = [])
 \<and> (strvars g data_var = [] \<longrightarrow> filter (prefix (lit ''--data='')) (command_parts g) = [])
 \<and> (strvars g cookie_var = [] \<longrightarrow> filter (prefix (lit ''--cookie='')) (command_parts g) = [])
 \<and> (strvars g user_agent_var = [] \<longrightarrow>
       filter (prefix (lit ''--user-agent='')) (command_parts g) = [])
 \<and> (strvars g referer_var = [] \<longrightarrow> filter (prefix (lit ''--referer='')) (command_parts g) = [])
 \<and> (strvars g headers_var = [] \<longrightarrow> filter (prefix (lit ''--headers='')) (command_parts g) = [])
 \<and> (strvars g proxy_var = [] \<longrightarrow> filter (prefix (lit ''--proxy='')) (command_parts g) = [])
 \<and> (strvars g risk_var = lit ''1'' \<longrightarrow> filter (prefix (lit ''--risk='')) (command_parts g) = [])
 \<and> (strvars g level_var = lit ''1'' \<longrightarrow> filter (prefix (lit ''--level='')) (command_parts g) = [])
 \<and> (strvars g threads_var = lit ''1'' \<longrightarrow>
       filter (prefix (lit ''--threads='')) (command_parts g) = [])
 \<and> (strvars g timeout_var = lit ''30'' \<longrightarrow>
       filter (prefix (lit ''--timeout='')) (command_parts g) = [])
 \<and> (strvars g retries_var = lit ''3'' \<longrightarrow>
       filter (prefix (lit ''--retries='')) (command_parts g) = [])
 \<and> (strvars g delay_var = lit ''0'' \<longrightarrow> filter (prefix (lit ''--delay='')) (command_parts g) = [])
 \<and> (strvars g database_var = [] \<longrightarrow> filter (prefix (lit ''-D '')) (command_parts g) = [])
 \<and> (strvars g table_var = [] \<longrightarrow> filter (prefix (lit ''-T '')) (command_parts g) = [])
 \<and> (strvars g wordlist_var = [] \<longrightarrow>
       filter (prefix (lit ''--wordlist='')) (command_parts g) = [])
 \<and> (strvars g output_dir_var = [] \<longrightarrow>
       filter (prefix (lit ''--output-dir='')) (command_parts g) = [])
 \<and> (\<not> boolvars g tor_var \<longrightarrow> lit ''--tor'' \<notin> set (command_parts g))
 \<and> (\<not> boolvars g random_agent_var \<longrightarrow> lit ''--random-agent'' \<notin> set (command_parts g))
 \<and> (\<not> boolvars g batch_var \<longrightarrow> lit ''--batch'' \<notin> set (command_parts g))
 \<and> (\<not> boolvars g verbose_var \<longrightarrow> lit ''-v'' \<notin> set (command_parts g))
 \<and> (\<not> boolvars g enum_dbs_var \<longrightarrow> lit ''--dbs'' \<notin> set (command_parts g))
 \<and> (\<not> boolvars g enum_tables_var \<longrightarrow> lit ''--tables'' \<notin> set (command_parts g))
 \<and> (\<not> boolvars g enum_columns_var \<longrightarrow> lit ''--columns'' \<notin> set (command_parts g))
 \<and> (\<not> boolvars g enum_schema_var \<longrightarrow> lit ''--schema'' \<notin> set (command_parts g))
 \<and> (\<not> boolvars g dump_all_var \<longrightarrow> lit ''--dump-all'' \<notin> set (command_parts g))
 \<and> (\<not> boolvars g dump_table_var \<longrightarrow> lit ''--dump'' \<notin> set (command_parts g))
 \<and> (\<not> boolvars g dump_columns_var \<longrightarrow> lit ''--dump-columns'' \<notin> set (command_parts g))
 \<and> (\<not> boolvars g count_var \<longrightarrow> lit ''--count'' \<notin> set (command_parts g))
 \<and> (\<not> boolvars g common_tables_var \<longrightarrow> lit ''--common-tables'' \<notin> set (command_parts g))
 \<and> (\<not> boolvars g common_columns_var \<longrightarrow> lit ''--common-columns'' \<notin> set (command_parts g))
 \<and> (\<not> boolvars g os_detect_var \<longrightarrow> lit ''--os-detect'' \<notin> set (command_parts g))
 \<and> (\<not> boolvars g dbms_detect_var \<longrightarrow> lit ''--dbms-detect'' \<notin> set (command_parts g))
 \<and> (\<not> boolvars g tech_boolean_var \<longrightarrow>
       of_char CHR ''B'' \<notin> set (technique_letters (command_parts g)))
 \<and> (\<not> boolvars g tech_error_var \<longrightarrow>
       of_char CHR ''E'' \<notin> set (technique_letters (command_parts g)))
 \<and> (\<not> boolvars g tech_union_var \<longrightarrow>
       of_char CHR ''U'' \<notin> set (technique_letters (command_parts g)))
 \<and> (\<not> boolvars g tech_stacked_var \<longrightarrow>
       of_char CHR ''S'' \<notin> set (technique_letters (command_parts g)))
 \<and> (\<not> boolvars g tech_time_var \<longrightarrow>
       of_char CHR ''T'' \<notin> set (technique_letters (command_parts g)))
 \<and> (\<not> boolvars g tech_inline_var \<longrightarrow>
       of_char CHR ''Q'' \<notin> set (technique_letters (command_parts g)))"
  unfolding technique_letters_command
  apply (intro conjI impI)
  apply (simp_all only: techniques_def set_concat set_append)
  apply (simp_all add: omit_simps)
  done

text \<open>The window as it opens has every option at its default.\<close>

theorem default_omission_witness:
  "(strvars init_gui url_var = [] \<and> filter (prefix (lit ''-u '')) (command_parts init_gui) = [])
 \<and> (strvars init_gui data_var = [] \<and> filter (prefix (lit ''--data='')) (command_parts init_gui) = [])
 \<and> (strvars init_gui cookie_var = [] \<and> filter (prefix (lit ''--cookie='')) (command_parts init_gui) = [])
 \<and> (strvars init_gui user_agent_var = [] \<and>
       filter (prefix (lit ''--user-agent='')) (command_parts init_gui) = [])
 \<and> (strvars init_gui referer_var = [] \<and> filter (prefix (lit ''--referer='')) (command_parts init_gui) = [])
 \<and> (strvars init_gui headers_var = [] \<and> filter (prefix (lit ''--headers='')) (command_parts init_gui) = [])
 \<and> (strvars init_gui proxy_var = [] \<and> filter (prefix (lit ''--proxy='')) (command_parts init_gui) = [])
 \<and> (strvars init_gui risk_var = lit ''1'' \<and> filter (prefix (lit ''--risk='')) (command_parts init_gui) = [])
 \<and> (strvars init_gui level_var = lit ''1'' \<and> filter (prefix (lit ''--level='')) (command_parts init_gui) = [])
 \<and> (strvars init_gui threads_var = lit ''1'' \<and>
       filter (prefix (lit ''--threads='')) (command_parts init_gui) = [])
 \<and> (strvars init_gui timeout_var = lit ''30'' \<and>
       filter (prefix (lit ''--timeout='')) (command_parts init_gui) = [])
 \<and> (strvars init_gui retries_var = lit ''3'' \<and>
       filter (prefix (lit ''--retries='')) (command_parts init_gui) = [])
 \<and> (strvars init_gui delay_var = lit ''0'' \<and> filter (prefix (lit ''--delay='')) (command_parts init_gui) = [])
 \<and> (strvars init_gui database_var = [] \<and> filter (prefix (lit ''-D '')) (command_parts init_gui) = [])
 \<and> (strvars init_gui table_var = [] \<and> filter (prefix (lit ''-T '')) (command_parts init_gui) = [])
 \<and> (strvars init_gui wordlist_var = [] \<and>
       filter (prefix (lit ''--wordlist='')) (command_parts init_gui) = [])
 \<and> (strvars init_gui output_dir_var = [] \<and>
       filter (prefix (lit ''--output-dir='')) (command_parts init_gui) = [])
 \<and> (\<not> boolvars init_gui tor_var \<and> lit ''--tor'' \<notin> set (command_parts init_gui))
 \<and> (\<not> boolvars init_gui random_agent_var \<and> lit ''--random-agent'' \<notin> set (command_parts init_gui))
 \<and> (\<not> boolvars init_gui batch_var \<and> lit ''--batch'' \<notin> set (command_parts init_gui))
 \<and> (\<not> boolvars init_gui verbose_var \<and> lit ''-v'' \<notin> set (command_parts init_gui))
 \<and> (\<not> boolvars init_gui enum_dbs_var \<and> lit ''--dbs'' \<notin> set (command_parts init_gui))
 \<and> (\<not> boolvars init_gui enum_tables_var \<and> lit ''--tables'' \<notin> set (command_parts init_gui))
 \<and> (\<not> boolvars init_gui enum_columns_var \<and> lit ''--columns'' \<notin> set (command_parts init_gui))
 \<and> (\<not> boolvars init_gui enum_schema_var \<and> lit ''--schema'' \<notin> set (command_parts init_gui))
 \<and> (\<not> boolvars init_gui dump_all_var \<and> lit ''--dump-all'' \<notin> set (command_parts init_gui))
 \<and> (\<not> boolvars init_gui dump_table_var \<and> lit ''--dump'' \<notin> set (command_parts init_gui))
 \<and> (\<not> boolvars init_gui dump_columns_var \<and> lit ''--dump-columns'' \<notin> set (command_parts init_gui))
 \<and> (\<not> boolvars init_gui count_var \<and> lit ''--count'' \<notin> set (command_parts init_gui))
 \<and> (\<not> boolvars init_gui common_tables_var \<and> lit ''--common-tables'' \<notin> set (command_parts init_gui))
 \<and> (\<not> boolvars init_gui common_columns_var \<and> lit ''--common-columns'' \<notin> set (command_parts init_gui))
 \<and> (\<not> boolvars init_gui os_detect_var \<and> lit ''--os-detect'' \<notin> set (command_parts init_gui))
 \<and> (\<not> boolvars init_gui dbms_detect_var \<and> lit ''--dbms-detect'' \<notin> set (command_parts init_gui))
 \<and> (\<not> boolvars init_gui tech_boolean_var \<and>
       of_char CHR ''B'' \<notin> set (technique_letters (command_parts init_gui)))
 \<and> (\<not> boolvars init_gui tech_error_var \<and>
       of_char CHR ''E'' \<notin> set (technique_letters (command_parts init_gui)))
 \<and> (\<not> boolvars init_gui tech_union_var \<and>
       of_char CHR ''U'' \<notin> set (technique_letters (command_parts init_gui)))
 \<and> (\<not> boolvars init_gui tech_stacked_var \<and>
       of_char CHR ''S'' \<notin> set (technique_letters (command_parts init_gui)))
 \<and> (\<not> boolvars init_gui tech_time_var \<and>
       of_char CHR ''T'' \<notin> set (technique_letters (command_parts init_gui)))
 \<and> (\<not> boolvars init_gui tech_inline_var \<and>
       of_char CHR ''Q'' \<notin> set (technique_letters (command_parts init_gui)))"
  using default_omission [of init_gui]
  by (simp add: init_gui_def load_presets_def default_strvars_def default_boolvars_def)

text \<open>
  C6. With the URL \<open>http://t/x?id=1\<close>, risk 3, database enumeration and the union
  technique set and every other option at its default, the tokens are \<open>sqlmap\<close>,
  \<open>-u "http://t/x?id=1"\<close>, \<open>--risk=3\<close>, \<open>--dbs\<close> and \<open>--technique=U\<close>, in this
  order, and the command is these tokens joined by single spaces.
\<close>

theorem example_command:
  "command_parts
     (g\<lparr>strvars := default_strvars(url_var := lit ''http://t/x?id=1'', risk_var := lit ''3''),
        boolvars := default_boolvars(enum_dbs_var := True, tech_union_var := True)\<rparr>)
   = [lit ''sqlmap'', lit ''-u \"http://t/x?id=1\"'', lit ''--risk=3'', lit ''--dbs'',
      lit ''--technique=U'']
 \<and> current_command (generate_command
     (g\<lparr>strvars := default_strvars(url_var := lit ''http://t/x?id=1'', risk_var := lit ''3''),
        boolvars := default_boolvars(enum_dbs_var := True, tech_union_var := True)\<rparr>))
   = lit ''sqlmap -u \"http://t/x?id=1\" --risk=3 --dbs --technique=U''"
  by (simp add: generate_command_def Let_def command_parts_def techniques_def append_if_def
      default_strvars_def default_boolvars_def lit_def quoted_def)

lemma command_parts_cong:
  "strvars g = strvars g' \<Longrightarrow> boolvars g = boolvars g' \<Longrightarrow> command_parts g = command_parts g'"
  by (simp add: command_parts_def techniques_def)

lemma generate_command_keeps_options:
  "strvars (generate_command g) = strvars g" "boolvars (generate_command g) = boolvars g"
  by (simp_all add: generate_command_def Let_def)

lemma current_command_generate:
  "current_command (generate_command g) = join (lit '' '') (command_parts g)"
  by (simp add: generate_command_def Let_def)

lemma generate_command_idem: "generate_command (generate_command g) = generate_command g"
proof -
  have kept: "command_parts (generate_command g) = command_parts g"
    by (rule command_parts_cong) (rule generate_command_keeps_options)+
  have "generate_command (generate_command g) =
          (generate_command g)\<lparr>current_command := join (lit '' '') (command_parts g),
            command_text := join (lit '' '') (command_parts g),
            status_var := [0x2705] @ lit '' Command generated successfully'',
            progress_var := [0x1f527] @ lit '' Ready to execute''\<rparr>"
    by (simp only: generate_command_def [of "generate_command g"] kept Let_def)
  also have "\<dots> = generate_command g"
    by (simp only: generate_command_def [of g] Let_def) simp
  finally show ?thesis .
qed

text \<open>
  C7. The command \<open>generate_command\<close> stores is determined by the option variables
  alone: two windows with equal options get the same command, whatever else differs
  between them. \<open>generate_command\<close> leaves the options as they are, so that running it
  again changes nothing.
\<close>

theorem generate_command_deterministic:
  assumes "strvars g = strvars g'" and "boolvars g = boolvars g'"
  shows "current_command (generate_command g) = current_command (generate_command g')
       \<and> strvars (generate_command g) = strvars g
       \<and> boolvars (generate_command g) = boolvars g
       \<and> generate_command (generate_command g) = generate_command g"
proof -
  have same: "command_parts g = command_parts g'"
    using assms by (rule command_parts_cong)
  show ?thesis
    by (simp only: current_command_generate same generate_command_keeps_options
        generate_command_idem)
qed

theorem generate_command_deterministic_witness:
  "current_command (generate_command init_gui)
     = current_command (generate_command (init_gui\<lparr>is_running := True, output_text := lit ''x''\<rparr>))
   \<and> generate_command (generate_command init_gui) = generate_command init_gui"
  using generate_command_deterministic
    [of init_gui "init_gui\<lparr>is_running := True, output_text := lit ''x''\<rparr>"]
  by simp

section \<open>Properties of the presets\<close>

lemma map_of_inj_values:
  assumes "distinct (map snd xs)" and "map_of xs a = Some x" and "map_of xs b = Some x"
  shows "a = b"
proof -
  have "(a, x) \<in> set xs" and "(b, x) \<in> set xs"
    using assms(2,3) by (auto dest: map_of_SomeD)
  moreover have "inj_on snd (set xs)"
    using assms(1) by (simp add: distinct_map)
  ultimately show ?thesis
    using inj_onD [of snd "set xs" "(a, x)" "(b, x)"] by simp
qed

lemma distinct_var_attrs: "distinct (map snd var_attrs)"
  by (simp add: var_attrs_def)

lemma getattr_var_inj:
  assumes "getattr_var a = Some x" and "getattr_var b = Some x"
  shows "a = b"
proof -
  have same: "map snd (map (\<lambda>(n, v). (lit n, v)) var_attrs) = map snd var_attrs"
    by (simp add: case_prod_unfold)
  have "distinct (map snd (map (\<lambda>(n, v). (lit n, v)) var_attrs))"
    by (simp only: same distinct_var_attrs)
  then show ?thesis
    using assms unfolding getattr_var_def by (rule map_of_inj_values)
qed

lemma var_set_other:
  "var_set tc var' x g = Inr g' \<Longrightarrow> var \<noteq> var' \<Longrightarrow> var_get var g' = var_get var g"
  by (cases var'; cases var) (auto split: option.splits)

lemma var_set_same_str:
  "var_set tc (StrVar v) x g = Inr g' \<Longrightarrow> strvars g' v = tk_string tc x"
  by auto

lemma var_set_same_bool:
  "var_set tc (BoolVar v) x g = Inr g' \<Longrightarrow> tk_boolean tc x = Some (boolvars g' v)"
  by (auto split: option.splits)

lemma apply_preset_frame:
  assumes "getattr_var (key @ lit ''_var'') = Some var" and "map_of p key = None"
  shows "var_get var (fst (apply_preset tc p g)) = var_get var g"
  using assms(2)
proof (induction p arbitrary: g)
  case Nil
  then show ?case by simp
next
  case (Cons kv rest)
  obtain k x where kv: "kv = (k, x)" by (cases kv)
  from Cons.prems kv have ne: "k \<noteq> key" and rest: "map_of rest key = None"
    by (auto split: if_splits)
  show ?case
  proof (cases "getattr_var (k @ lit ''_var'')")
    case None
    then show ?thesis using kv Cons.IH [OF rest] by simp
  next
    case (Some var')
    have diff: "var \<noteq> var'"
    proof
      assume "var = var'"
      then have "key @ lit ''_var'' = k @ lit ''_var''"
        using assms(1) Some getattr_var_inj [of "key @ lit ''_var''" var "k @ lit ''_var''"]
        by simp
      then show False using ne by simp
    qed
    show ?thesis
    proof (cases "var_set tc var' x g")
      case (Inl e)
      then show ?thesis using kv Some by simp
    next
      case (Inr g')
      then show ?thesis
        using kv Some Cons.IH [OF rest, of g'] var_set_other [OF Inr diff] by simp
    qed
  qed
qed

lemma apply_preset_overwrites:
  assumes "getattr_var (key @ lit ''_var'') = Some var"
    and "distinct (map fst p)" and "map_of p key = Some value"
    and "snd (apply_preset tc p g) = None"
  shows "\<exists>h h'. var_set tc var value h = Inr h'
           \<and> var_get var (fst (apply_preset tc p g)) = var_get var h'"
  using assms(2-4)
proof (induction p arbitrary: g)
  case Nil
  then show ?case by simp
next
  case (Cons kv rest)
  obtain k x where kv: "kv = (k, x)" by (cases kv)
  from Cons.prems(1) kv have fresh: "map_of rest k = None" and dist: "distinct (map fst rest)"
    by (auto simp add: map_of_eq_None_iff)
  show ?case
  proof (cases "k = key")
    case True
    with Cons.prems(2) kv have x: "x = value" by simp
    from True fresh have none: "map_of rest key = None" by simp
    show ?thesis
    proof (cases "var_set tc var value g")
      case (Inl e)
      then show ?thesis using Cons.prems(3) kv True x assms(1) by simp
    next
      case (Inr g')
      have "var_get var (fst (apply_preset tc rest g')) = var_get var g'"
        using assms(1) none by (rule apply_preset_frame)
      then show ?thesis using Inr kv True x assms(1) by auto
    qed
  next
    case False
    with Cons.prems(2) kv have later: "map_of rest key = Some value" by simp
    show ?thesis
    proof (cases "getattr_var (k @ lit ''_var'')")
      case None
      then show ?thesis using Cons.IH [OF dist later, of g] Cons.prems(3) kv by simp
    next
      case (Some var')
      show ?thesis
      proof (cases "var_set tc var' x g")
        case (Inl e)
        then show ?thesis using Cons.prems(3) kv Some by simp
      next
        case (Inr g')
        then show ?thesis using Cons.IH [OF dist later, of g'] Cons.prems(3) kv Some by simp
      qed
    qed
  qed
qed

lemma load_preset_options:
  assumes "map_of (presets g) (listbox_get (preset_listbox g) i) = Some preset"
  shows "strvars (fst (load_preset tc (Some i) g)) = strvars (fst (apply_preset tc preset g))"
    and "boolvars (fst (load_preset tc (Some i) g)) = boolvars (fst (apply_preset tc preset g))"
    and "snd (load_preset tc (Some i) g) = snd (apply_preset tc preset g)"
  using assms
  by (auto simp add: load_preset_def Let_def messagebox_def split: prod.splits option.splits)

text \<open>
  Each attribute is found under its own name: the key \<open>attr_name[:-4]\<close> of
  \<open>save_preset\<close> leads back to the variable it was read from.
\<close>

lemma attr_names:
  "list_all (\<lambda>(n, var). getattr_var (take (length n - 4) (lit n) @ lit ''_var'') = Some var)
     var_attrs"
  by (simp add: var_attrs_def getattr_var_def lit_def)

text \<open>Every option variable is named by a key.\<close>

lemma option_variables_have_keys:
  "\<exists>key. getattr_var (key @ lit ''_var'') = Some (StrVar v)"
  "\<exists>key. getattr_var (key @ lit ''_var'') = Some (BoolVar b)"
proof -
  note names = attr_names
  have "StrVar v \<in> snd ` set var_attrs"
    by (cases v) (simp_all add: var_attrs_def)
  then obtain n where "(n, StrVar v) \<in> set var_attrs" by auto
  with names show "\<exists>key. getattr_var (key @ lit ''_var'') = Some (StrVar v)"
    by (auto simp add: list_all_iff)
  have "BoolVar b \<in> snd ` set var_attrs"
    by (cases b) (simp_all add: var_attrs_def)
  then obtain n where "(n, BoolVar b) \<in> set var_attrs" by auto
  with names show "\<exists>key. getattr_var (key @ lit ''_var'') = Some (BoolVar b)"
    by (auto simp add: list_all_iff)
qed

text \<open>
  C9. Loading the selected preset is a partial merge. A key of the preset names the
  option variable \<open>self.<key>_var\<close>. An option variable whose key is not in the preset
  keeps its value, also when the loop is left by an exception. When the loop completes,
  an option variable whose key is in the preset holds the preset's value: the string
  itself for a text option and the boolean itself for a flag (a value of the other kind
  goes through Tcl's conversion). The preset is a dictionary, so its keys are distinct.
\<close>

theorem load_preset_partial_merge:
  assumes "distinct (map fst preset)"
    and "map_of (presets g) (listbox_get (preset_listbox g) i) = Some preset"
  shows "(\<forall>key v. getattr_var (key @ lit ''_var'') = Some (StrVar v) \<longrightarrow> map_of preset key = None
            \<longrightarrow> strvars (fst (load_preset tc (Some i) g)) v = strvars g v)
       \<and> (\<forall>key v. getattr_var (key @ lit ''_var'') = Some (BoolVar v) \<longrightarrow> map_of preset key = None
            \<longrightarrow> boolvars (fst (load_preset tc (Some i) g)) v = boolvars g v)
       \<and> (snd (load_preset tc (Some i) g) = None \<longrightarrow>
            (\<forall>key v value. getattr_var (key @ lit ''_var'') = Some (StrVar v)
                \<longrightarrow> map_of preset key = Some value
                \<longrightarrow> strvars (fst (load_preset tc (Some i) g)) v = tk_string tc value)
          \<and> (\<forall>key v value. getattr_var (key @ lit ''_var'') = Some (BoolVar v)
                \<longrightarrow> map_of preset key = Some value
                \<longrightarrow> tk_boolean tc value = Some (boolvars (fst (load_preset tc (Some i) g)) v)))"
proof (intro conjI allI impI)
  fix key v
  assume "getattr_var (key @ lit ''_var'') = Some (StrVar v)" and "map_of preset key = None"
  then have "var_get (StrVar v) (fst (apply_preset tc preset g)) = var_get (StrVar v) g"
    by (rule apply_preset_frame)
  then show "strvars (fst (load_preset tc (Some i) g)) v = strvars g v"
    by (simp add: load_preset_options(1) [OF assms(2)])
next
  fix key v
  assume "getattr_var (key @ lit ''_var'') = Some (BoolVar v)" and "map_of preset key = None"
  then have "var_get (BoolVar v) (fst (apply_preset tc preset g)) = var_get (BoolVar v) g"
    by (rule apply_preset_frame)
  then show "boolvars (fst (load_preset tc (Some i) g)) v = boolvars g v"
    by (simp add: load_preset_options(2) [OF assms(2)])
next
  fix key v x
  assume ok: "snd (load_preset tc (Some i) g) = None"
    and var: "getattr_var (key @ lit ''_var'') = Some (StrVar v)"
    and val: "map_of preset key = Some x"
  from ok have "snd (apply_preset tc preset g) = None"
    by (simp add: load_preset_options(3) [OF assms(2)])
  with var assms(1) val obtain h h' where
    "var_set tc (StrVar v) x h = Inr h'"
    and "var_get (StrVar v) (fst (apply_preset tc preset g)) = var_get (StrVar v) h'"
    using apply_preset_overwrites by blast
  then show "strvars (fst (load_preset tc (Some i) g)) v = tk_string tc x"
    by (auto simp add: load_preset_options(1) [OF assms(2)])
next
  fix key v x
  assume ok: "snd (load_preset tc (Some i) g) = None"
    and var: "getattr_var (key @ lit ''_var'') = Some (BoolVar v)"
    and val: "map_of preset key = Some x"
  from ok have "snd (apply_preset tc preset g) = None"
    by (simp add: load_preset_options(3) [OF assms(2)])
  with var assms(1) val obtain h h' where
    "var_set tc (BoolVar v) x h = Inr h'"
    and "var_get (BoolVar v) (fst (apply_preset tc preset g)) = var_get (BoolVar v) h'"
    using apply_preset_overwrites by blast
  then show "tk_boolean tc x = Some (boolvars (fst (load_preset tc (Some i) g)) v)"
    by (auto simp add: load_preset_options(2) [OF assms(2)] split: option.splits)
qed

text \<open>
  The first built-in preset, loaded into the fresh window: risk becomes 2, threads (not in
  the preset) stays 1, batch is set, tor (not in the preset) stays off.
\<close>

theorem load_preset_partial_merge_witness:
  "snd (load_preset sample_tcl (Some 0) init_gui) = None
   \<and> strvars (fst (load_preset sample_tcl (Some 0) init_gui)) risk_var = lit ''2''
   \<and> strvars (fst (load_preset sample_tcl (Some 0) init_gui)) threads_var = lit ''1''
   \<and> boolvars (fst (load_preset sample_tcl (Some 0) init_gui)) batch_var
   \<and> \<not> boolvars (fst (load_preset sample_tcl (Some 0) init_gui)) tor_var"
proof -
  let ?p = "[(lit ''risk'', PStr (lit ''2'')), (lit ''level'', PStr (lit ''3'')),
          (lit ''batch'', PBool True), (lit ''verbose'', PBool True),
          (lit ''random_agent'', PBool True)]"
  have sel: "map_of (presets init_gui) (listbox_get (preset_listbox init_gui) 0) = Some ?p"
    by (simp add: init_gui_def load_presets_def builtin_presets_def listbox_get_def lit_def)
  have dist: "distinct (map fst ?p)"
    by (simp add: lit_def)
  have ok: "snd (load_preset sample_tcl (Some 0) init_gui) = None"
    by (simp add: load_preset_def Let_def sel getattr_var_def var_attrs_def lit_def sample_tcl_def
        messagebox_def)
  have k1: "getattr_var (lit ''risk'' @ lit ''_var'') = Some (StrVar risk_var)"
    and k2: "getattr_var (lit ''threads'' @ lit ''_var'') = Some (StrVar threads_var)"
    and k3: "getattr_var (lit ''batch'' @ lit ''_var'') = Some (BoolVar batch_var)"
    and k4: "getattr_var (lit ''tor'' @ lit ''_var'') = Some (BoolVar tor_var)"
    by (simp_all add: getattr_var_def var_attrs_def lit_def)
  have m1: "map_of ?p (lit ''risk'') = Some (PStr (lit ''2''))"
    and m2: "map_of ?p (lit ''threads'') = None"
    and m3: "map_of ?p (lit ''batch'') = Some (PBool True)"
    and m4: "map_of ?p (lit ''tor'') = None"
    by (simp_all add: lit_def)
  have init: "strvars init_gui threads_var = lit ''1''" "\<not> boolvars init_gui tor_var"
    by (simp_all add: init_gui_def load_presets_def default_strvars_def default_boolvars_def)
  note T = load_preset_partial_merge [OF dist sel, of sample_tcl]
  have c1: "strvars (fst (load_preset sample_tcl (Some 0) init_gui)) risk_var
              = tk_string sample_tcl (PStr (lit ''2''))"
    using T ok k1 m1 by blast
  have c2: "strvars (fst (load_preset sample_tcl (Some 0) init_gui)) threads_var
              = strvars init_gui threads_var"
    using T k2 m2 by blast
  have c3: "tk_boolean sample_tcl (PBool True)
              = Some (boolvars (fst (load_preset sample_tcl (Some 0) init_gui)) batch_var)"
    using T ok k3 m3 by blast
  have c4: "boolvars (fst (load_preset sample_tcl (Some 0) init_gui)) tor_var
              = boolvars init_gui tor_var"
    using T k4 m4 by blast
  show ?thesis
    using ok c1 c2 c3 c4 init by simp
qed

text \<open>
  The loop completes for every preset whose flags hold booleans: for the built-in presets
  and for every preset \<open>save_preset\<close> collects.
\<close>

lemma apply_preset_completes:
  assumes "\<forall>(k, x) \<in> set p. \<forall>v. getattr_var (k @ lit ''_var'') = Some (BoolVar v)
             \<longrightarrow> (\<exists>b. x = PBool b)"
  shows "snd (apply_preset tc p g) = None"
  using assms
proof (induction p arbitrary: g)
  case Nil
  then show ?case by simp
next
  case (Cons kv rest)
  obtain k x where kv: "kv = (k, x)" by (cases kv)
  from Cons.prems have rest: "\<forall>(k, x) \<in> set rest.
      \<forall>v. getattr_var (k @ lit ''_var'') = Some (BoolVar v) \<longrightarrow> (\<exists>b. x = PBool b)"
    by simp
  show ?case
  proof (cases "getattr_var (k @ lit ''_var'')")
    case None
    then show ?thesis using kv Cons.IH [OF rest] by simp
  next
    case (Some var)
    have "\<exists>g'. var_set tc var x g = Inr g'"
    proof (cases var)
      case (BoolVar v)
      with Some Cons.prems kv obtain b where "x = PBool b" by auto
      then show ?thesis using BoolVar by simp
    qed simp_all
    then show ?thesis using kv Some Cons.IH [OF rest] by auto
  qed
qed

lemma collected_preset_completes:
  "snd (apply_preset tc (collect_settings h) g) = None"
proof (rule apply_preset_completes, clarify)
  fix k x v
  assume "(k, x) \<in> set (collect_settings h)"
    and var: "getattr_var (k @ lit ''_var'') = Some (BoolVar v)"
  then obtain n var' where entry: "(n, var') \<in> set var_attrs"
    and k: "k = lit (take (length n - 4) n)" and x: "x = var_get var' h"
    by (auto simp add: collect_settings_def)
  from entry attr_names
  have "getattr_var (take (length n - 4) (lit n) @ lit ''_var'') = Some var'"
    by (auto simp add: list_all_iff)
  then have "var' = BoolVar v"
    using var k by (simp add: lit_def take_map)
  then show "\<exists>b. x = PBool b" using x by simp
qed

lemma builtin_presets_complete:
  "(name, p) \<in> set builtin_presets \<Longrightarrow> snd (apply_preset tc p g) = None"
  by (auto simp add: builtin_presets_def getattr_var_def var_attrs_def lit_def)





lemma save_preset_after_assignment:
  "save_preset (Some name) g =
     (case save_preset_assigned (Some name) g of
        None \<Rightarrow> g
      | Some g1 \<Rightarrow>
          messagebox
            (ShowInfo (lit ''Success'')
               ([0x2705] @ lit '' Preset '' @ [39] @ preset_key name @ [39]
                @ lit '' saved successfully!''))
            ((load_presets g1)
               \<lparr>status_var := [0x2705] @ lit '' Preset '' @ [39] @ preset_key name @ [39]
                                @ lit '' saved'',
                progress_var := [0x1f4be] @ lit '' Saved''\<rparr>))"
  by (simp add: save_preset_def save_preset_assigned_def Let_def split: option.splits)




text \<open>
  C8. Saving the options risk 3 and database enumeration under the name \<open>X\<close> writes the
  entry at line 910, and the call of \<open>load_presets\<close> on the next line assigns the
  built-in dictionary again: after \<open>save_preset\<close> neither the prefixed key nor \<open>X\<close> is
  a key of \<open>self.presets\<close>. In the same way a deleted built-in preset is back after
  \<open>delete_preset\<close>.
\<close>

theorem saved_preset_is_lost:
  "map_of (presets (save_preset_store (lit ''X'')
      (window (run_events sample_tcl
         [SetString risk_var (lit ''3''), SetBoolean enum_dbs_var True] init_world))))
      ([0x2699, 0xfe0f] @ lit '' X'')
     = Some (collect_settings (window (run_events sample_tcl
         [SetString risk_var (lit ''3''), SetBoolean enum_dbs_var True] init_world)))
   \<and> map_of (presets (window (run_events sample_tcl
         [SetString risk_var (lit ''3''), SetBoolean enum_dbs_var True,
          SavePreset (Some (lit ''X''))] init_world)))
      ([0x2699, 0xfe0f] @ lit '' X'') = None
   \<and> map_of (presets (window (run_events sample_tcl
         [SetString risk_var (lit ''3''), SetBoolean enum_dbs_var True,
          SavePreset (Some (lit ''X''))] init_world)))
      (lit ''X'') = None
   \<and> presets (window (run_events sample_tcl
         [SetString risk_var (lit ''3''), SetBoolean enum_dbs_var True,
          SavePreset (Some (lit ''X''))] init_world)) = builtin_presets
   \<and> snd (delete_preset (Some 0) True init_gui) = None
   \<and> map_of (presets (window (run_events sample_tcl [DeletePreset (Some 0) True] init_world)))
        ([0x1f680] @ lit '' Quick Scan'')
     = Some [(lit ''risk'', PStr (lit ''2'')), (lit ''level'', PStr (lit ''3'')),
             (lit ''batch'', PBool True), (lit ''verbose'', PBool True),
             (lit ''random_agent'', PBool True)]"
  by (simp add: init_world_def init_gui_def load_presets_def builtin_presets_def
      save_preset_def save_preset_store_def preset_key_def delete_preset_def listbox_get_def
      update_conv' Let_def messagebox_def lit_def)

section \<open>Properties of the execution\<close>

text \<open>
  An exception of \<open>Popen\<close> is reported as a failure that carries the text of the
  exception. The exit status of a process that ran has no part in what is scheduled.
\<close>

lemma launch_error_reported:
  "run_sqlmap (PopenRaises e) = [ExecutionError e]
   \<and> status_var (run_callbacks now (run_sqlmap (PopenRaises e)) g)
       = [0x1f534] @ lit '' SQLMap execution failed''
   \<and> last (dialogs (run_callbacks now (run_sqlmap (PopenRaises e)) g))
       = ShowError (lit ''Error'') ([0x274c] @ lit '' SQLMap execution failed:'' @ [10] @ e)
   \<and> \<not> is_running (run_callbacks now (run_sqlmap (PopenRaises e)) g)"
  by (simp add: execution_error_def messagebox_def)

lemma exit_status_ignored:
  "run_sqlmap (Exits lines status) = run_sqlmap (Exits lines 0)"
  by simp

text \<open>
  C1. A process that prints one line and exits with status 127: the worker schedules
  \<open>_execution_finished\<close>, and the window reports success. The exit status \<open>wait\<close>
  returns is not read.
\<close>

theorem failed_process_reported_as_success:
  "run_sqlmap (Exits [lit ''/bin/sh: 1: sqlmap: not found'' @ [10]] 127)
     = [UpdateOutput (lit ''/bin/sh: 1: sqlmap: not found'' @ [10]), ExecutionFinished]
   \<and> status_var (run_callbacks (lit ''2024-01-01 10:00:01'')
        (run_sqlmap (Exits [lit ''/bin/sh: 1: sqlmap: not found'' @ [10]] 127))
        (fst (execute_sqlmap (lit ''2024-01-01 10:00:00'') (generate_command init_gui))))
     = [0x1f7e2] @ lit '' SQLMap execution completed successfully''
   \<and> last (dialogs (run_callbacks (lit ''2024-01-01 10:00:01'')
        (run_sqlmap (Exits [lit ''/bin/sh: 1: sqlmap: not found'' @ [10]] 127))
        (fst (execute_sqlmap (lit ''2024-01-01 10:00:00'') (generate_command init_gui)))))
     = ShowInfo (lit ''Success'') ([0x1f389] @ lit '' SQLMap execution completed successfully!'')
   \<and> \<not> is_running (run_callbacks (lit ''2024-01-01 10:00:01'')
        (run_sqlmap (Exits [lit ''/bin/sh: 1: sqlmap: not found'' @ [10]] 127))
        (fst (execute_sqlmap (lit ''2024-01-01 10:00:00'') (generate_command init_gui))))"
  by (simp add: read_lines_def execution_finished_def update_output_def messagebox_def
      execute_sqlmap_def generate_command_def Let_def lit_def)

lemma join_nonempty: "x \<noteq> [] \<Longrightarrow> join sep (x # xs) \<noteq> []"
  by (cases xs) simp_all

lemma command_parts_head: "\<exists>rest. command_parts g = lit ''sqlmap'' # rest"
  by (simp add: command_parts_def)

lemma generate_command_nonempty: "current_command (generate_command g) \<noteq> []"
proof -
  obtain rest where "command_parts g = lit ''sqlmap'' # rest"
    using command_parts_head by blast
  then show ?thesis
    using join_nonempty [of "lit ''sqlmap''" "lit '' ''" rest]
    by (simp add: generate_command_def Let_def lit_def)
qed

lemma generate_command_running: "is_running (generate_command g) = is_running g"
  by (simp add: generate_command_def Let_def)

lemma execute_sqlmap_running:
  assumes "is_running g \<longrightarrow> current_command g \<noteq> []"
  shows "is_running (fst (execute_sqlmap now g))
           \<longrightarrow> current_command (fst (execute_sqlmap now g)) \<noteq> []"
  using assms by (simp add: execute_sqlmap_def messagebox_def)

lemma quick_scan_running:
  assumes "is_running g \<longrightarrow> current_command g \<noteq> []"
  shows "is_running (fst (quick_scan now g)) \<longrightarrow> current_command (fst (quick_scan now g)) \<noteq> []"
proof (cases "strvars g url_var = []")
  case True
  then show ?thesis using assms by (simp add: quick_scan_def messagebox_def)
next
  case False
  let ?g1 = "generate_command (g\<lparr>strvars := (strvars g)(risk_var := lit ''2'', level_var := lit ''3''),
                    boolvars := (boolvars g)(batch_var := True, verbose_var := True,
                                             random_agent_var := True)\<rparr>)"
  have "is_running (fst (execute_sqlmap now ?g1)) \<longrightarrow>
          current_command (fst (execute_sqlmap now ?g1)) \<noteq> []"
    by (rule execute_sqlmap_running) (simp add: generate_command_nonempty)
  then show ?thesis using False
    by (simp add: quick_scan_def Let_def case_prod_beta)
qed

lemma var_set_session:
  "var_set tc var x g = Inr g' \<Longrightarrow>
     is_running g' = is_running g \<and> current_command g' = current_command g"
  by (cases var) (auto split: option.splits)

lemma apply_preset_session:
  "is_running (fst (apply_preset tc p g)) = is_running g
     \<and> current_command (fst (apply_preset tc p g)) = current_command g"
proof (induction p arbitrary: g)
  case Nil
  then show ?case by simp
next
  case (Cons kv rest)
  obtain k x where kv: "kv = (k, x)" by (cases kv)
  show ?case
    using kv Cons.IH var_set_session
    by (auto split: option.splits sum.splits)
qed

lemma load_preset_session:
  "is_running (fst (load_preset tc sel g)) = is_running g
     \<and> current_command (fst (load_preset tc sel g)) = current_command g"
proof (cases sel)
  case None
  then show ?thesis by (simp add: load_preset_def messagebox_def)
next
  case (Some i)
  show ?thesis
  proof (cases "map_of (presets g) (listbox_get (preset_listbox g) i)")
    case None
    then show ?thesis using \<open>sel = Some i\<close> by (simp add: load_preset_def Let_def)
  next
    case (Some preset)
    obtain g' r where ap: "apply_preset tc preset g = (g', r)"
      by (cases "apply_preset tc preset g")
    then have "is_running g' = is_running g \<and> current_command g' = current_command g"
      using apply_preset_session [of tc preset g] by simp
    then show ?thesis
      using \<open>sel = Some i\<close> Some ap
      by (cases r) (simp_all add: load_preset_def Let_def messagebox_def)
  qed
qed

lemma save_preset_session:
  "is_running (save_preset answer g) = is_running g
     \<and> current_command (save_preset answer g) = current_command g"
  by (simp add: save_preset_def save_preset_store_def load_presets_def Let_def messagebox_def
      split: option.splits)

lemma delete_preset_session:
  "is_running (fst (delete_preset sel confirm g)) = is_running g
     \<and> current_command (fst (delete_preset sel confirm g)) = current_command g"
  by (simp add: delete_preset_def load_presets_def Let_def messagebox_def split: option.splits)

lemma window_start_thread: "window (start_thread r w) = fst r"
  by (cases r) (simp add: start_thread_def split: option.splits)

lemma step_running_has_command:
  assumes "is_running (window w) \<longrightarrow> current_command (window w) \<noteq> []"
  shows "is_running (window (step tc e w)) \<longrightarrow> current_command (window (step tc e w)) \<noteq> []"
proof (cases e)
  case GenerateCommand
  then show ?thesis by (simp add: generate_command_nonempty)
next
  case (ExecuteSqlmap now)
  then show ?thesis using execute_sqlmap_running [OF assms] by (simp add: window_start_thread)
next
  case (QuickScan now)
  then show ?thesis using quick_scan_running [OF assms] by (simp add: window_start_thread)
next
  case (LoadPreset sel)
  then show ?thesis using assms by (simp add: load_preset_session)
next
  case (SavePreset answer)
  then show ?thesis using assms by (simp add: save_preset_session)
next
  case (DeletePreset sel confirm)
  then show ?thesis using assms by (simp add: delete_preset_session)
next
  case (Worker i cb now)
  then show ?thesis using assms
    by (cases cb)
      (simp_all add: update_output_def execution_finished_def execution_error_def messagebox_def)
qed (use assms in \<open>simp_all add: stop_execution_def clear_output_def save_output_def
       messagebox_def split: option.splits\<close>)

lemma run_events_running_has_command:
  assumes "is_running (window w) \<longrightarrow> current_command (window w) \<noteq> []"
  shows "is_running (window (run_events tc es w))
           \<longrightarrow> current_command (window (run_events tc es w)) \<noteq> []"
  using assms
proof (induction es arbitrary: w)
  case Nil
  then show ?case by simp
next
  case (Cons e es)
  from Cons.prems have "is_running (window (step tc e w)) \<longrightarrow>
      current_command (window (step tc e w)) \<noteq> []"
    by (rule step_running_has_command)
  then show ?case using Cons.IH by simp
qed

text \<open>
  In every state the window reaches from its start in which \<open>is_running\<close> is set, a
  request through \<open>execute_sqlmap\<close> is answered at once by the warning that SQLMap is
  already running: no worker thread is started, and the window is as before except for
  the recorded warning.
\<close>

lemma flagged_request_rejected:
  assumes "w = run_events tc es init_world" and "is_running (window w)"
  shows "execute_sqlmap now (window w) =
           (messagebox (ShowWarning (lit ''Warning'') (lit ''SQLMap is already running''))
              (window w), None)
       \<and> sessions (step tc (ExecuteSqlmap now) w) = sessions w
       \<and> window (step tc (ExecuteSqlmap now) w) =
           (window w)\<lparr>dialogs := dialogs (window w)
              @ [ShowWarning (lit ''Warning'') (lit ''SQLMap is already running'')]\<rparr>
       \<and> is_running (window (step tc (ExecuteSqlmap now) w))
       \<and> output_text (window (step tc (ExecuteSqlmap now) w)) = output_text (window w)
       \<and> current_command (window (step tc (ExecuteSqlmap now) w)) = current_command (window w)"
proof -
  have "is_running (window init_world) \<longrightarrow> current_command (window init_world) \<noteq> []"
    by (simp add: init_world_def init_gui_def load_presets_def)
  then have "current_command (window w) \<noteq> []"
    using assms run_events_running_has_command by blast
  then have rejected: "execute_sqlmap now (window w) =
           (messagebox (ShowWarning (lit ''Warning'') (lit ''SQLMap is already running''))
              (window w), None)"
    using assms(2) by (simp add: execute_sqlmap_def)
  show ?thesis
    using assms(2) by (simp add: rejected start_thread_def messagebox_def)
qed

text \<open>A second request five seconds after the first one was started.\<close>

lemma flagged_request_rejected_example:
  "is_running (window (run_events sample_tcl
      [GenerateCommand, ExecuteSqlmap (lit ''2024-01-01 10:00:00'')] init_world))
   \<and> sessions (step sample_tcl (ExecuteSqlmap (lit ''2024-01-01 10:00:05''))
        (run_events sample_tcl
           [GenerateCommand, ExecuteSqlmap (lit ''2024-01-01 10:00:00'')] init_world))
     = [lit ''sqlmap'']"
  using flagged_request_rejected
    [of "run_events sample_tcl
           [GenerateCommand, ExecuteSqlmap (lit ''2024-01-01 10:00:00'')] init_world"
        sample_tcl "[GenerateCommand, ExecuteSqlmap (lit ''2024-01-01 10:00:00'')]"
        "lit ''2024-01-01 10:00:05''"]
  by (simp add: init_world_def init_gui_def load_presets_def generate_command_def Let_def
      command_parts_def techniques_def append_if_def default_strvars_def default_boolvars_def
      execute_sqlmap_def start_thread_def messagebox_def lit_def)

text \<open>
  C3. The flag does not protect a running execution. After a stop request the worker of
  the first execution is still live, with one line of output shown; the next request is
  accepted, a second worker is started and the output text is replaced by the new header.
  And a quick scan requested while \<open>is_running\<close> is set is refused by
  \<open>execute_sqlmap\<close> only after it has set its options and generated a new command, so
  that \<open>current_command\<close> is no longer the command of the running execution.
\<close>

theorem running_session_not_protected:
  "sessions (run_events sample_tcl
      [SetString url_var (lit ''http://t/x?id=1''), GenerateCommand,
       ExecuteSqlmap (lit ''2024-01-01 10:00:00''),
       Worker 0 (UpdateOutput (lit ''starting'' @ [10])) (lit ''2024-01-01 10:00:01''),
       StopExecution] init_world)
     = [lit ''sqlmap -u \"http://t/x?id=1\"'']
   \<and> snd (execute_sqlmap (lit ''2024-01-01 10:00:05'') (window (run_events sample_tcl
      [SetString url_var (lit ''http://t/x?id=1''), GenerateCommand,
       ExecuteSqlmap (lit ''2024-01-01 10:00:00''),
       Worker 0 (UpdateOutput (lit ''starting'' @ [10])) (lit ''2024-01-01 10:00:01''),
       StopExecution] init_world)))
     = Some (lit ''sqlmap -u \"http://t/x?id=1\"'')
   \<and> sessions (run_events sample_tcl
      [SetString url_var (lit ''http://t/x?id=1''), GenerateCommand,
       ExecuteSqlmap (lit ''2024-01-01 10:00:00''),
       Worker 0 (UpdateOutput (lit ''starting'' @ [10])) (lit ''2024-01-01 10:00:01''),
       StopExecution, ExecuteSqlmap (lit ''2024-01-01 10:00:05'')] init_world)
     = [lit ''sqlmap -u \"http://t/x?id=1\"'', lit ''sqlmap -u \"http://t/x?id=1\"'']
   \<and> output_text (window (run_events sample_tcl
      [SetString url_var (lit ''http://t/x?id=1''), GenerateCommand,
       ExecuteSqlmap (lit ''2024-01-01 10:00:00''),
       Worker 0 (UpdateOutput (lit ''starting'' @ [10])) (lit ''2024-01-01 10:00:01''),
       StopExecution] init_world))
     = replicate 80 61 @ [10]
       @ [0x1f512] @ lit '' SQLMap Professional Scanner - Execution Started'' @ [10]
       @ [0x23f0] @ lit '' Time: 2024-01-01 10:00:00'' @ [10]
       @ [0x1f3af] @ lit '' Command: sqlmap -u \"http://t/x?id=1\"'' @ [10]
       @ replicate 80 61 @ [10, 10] @ lit ''starting'' @ [10]
   \<and> output_text (window (run_events sample_tcl
      [SetString url_var (lit ''http://t/x?id=1''), GenerateCommand,
       ExecuteSqlmap (lit ''2024-01-01 10:00:00''),
       Worker 0 (UpdateOutput (lit ''starting'' @ [10])) (lit ''2024-01-01 10:00:01''),
       StopExecution, ExecuteSqlmap (lit ''2024-01-01 10:00:05'')] init_world))
     = replicate 80 61 @ [10]
       @ [0x1f512] @ lit '' SQLMap Professional Scanner - Execution Started'' @ [10]
       @ [0x23f0] @ lit '' Time: 2024-01-01 10:00:05'' @ [10]
       @ [0x1f3af] @ lit '' Command: sqlmap -u \"http://t/x?id=1\"'' @ [10]
       @ replicate 80 61 @ [10, 10]
   \<and> is_running (window (run_events sample_tcl
      [SetString url_var (lit ''http://t/x?id=1''), GenerateCommand,
       ExecuteSqlmap (lit ''2024-01-01 10:00:00'')] init_world))
   \<and> current_command (window (run_events sample_tcl
      [SetString url_var (lit ''http://t/x?id=1''), GenerateCommand,
       ExecuteSqlmap (lit ''2024-01-01 10:00:00'')] init_world))
     = lit ''sqlmap -u \"http://t/x?id=1\"''
   \<and> sessions (run_events sample_tcl
      [SetString url_var (lit ''http://t/x?id=1''), GenerateCommand,
       ExecuteSqlmap (lit ''2024-01-01 10:00:00''),
       QuickScan (lit ''2024-01-01 10:00:05'')] init_world)
     = [lit ''sqlmap -u \"http://t/x?id=1\"'']
   \<and> current_command (window (run_events sample_tcl
      [SetString url_var (lit ''http://t/x?id=1''), GenerateCommand,
       ExecuteSqlmap (lit ''2024-01-01 10:00:00''),
       QuickScan (lit ''2024-01-01 10:00:05'')] init_world))
     = lit ''sqlmap -u \"http://t/x?id=1\" --risk=2 --level=3 --random-agent --batch -v''"
  by (simp add: init_world_def init_gui_def load_presets_def generate_command_def Let_def
      command_parts_def techniques_def append_if_def default_strvars_def default_boolvars_def
      execute_sqlmap_def quick_scan_def stop_execution_def update_output_def start_thread_def
      messagebox_def lit_def quoted_def)

text \<open>
  As long as no stop request is made, at most one worker thread is live, and \<open>is_running\<close>
  tells whether there is one.
\<close>

lemma execute_sqlmap_one_session:
  assumes "length (sessions w) \<le> 1" and "is_running (window w) = (sessions w \<noteq> [])"
    and "is_running g = is_running (window w)"
  shows "length (sessions (start_thread (execute_sqlmap now g) w)) \<le> 1
       \<and> is_running (fst (execute_sqlmap now g))
           = (sessions (start_thread (execute_sqlmap now g) w) \<noteq> [])"
  using assms by (simp add: execute_sqlmap_def start_thread_def messagebox_def)

lemma step_one_session:
  assumes "length (sessions w) \<le> 1" and "is_running (window w) = (sessions w \<noteq> [])"
    and "e \<noteq> StopExecution"
  shows "length (sessions (step tc e w)) \<le> 1
       \<and> is_running (window (step tc e w)) = (sessions (step tc e w) \<noteq> [])"
proof (cases e)
  case (ExecuteSqlmap now)
  then show ?thesis
    using execute_sqlmap_one_session [OF assms(1,2), of "window w" now]
    by (simp add: window_start_thread)
next
  case (QuickScan now)
  show ?thesis
  proof (cases "strvars (window w) url_var = []")
    case True
    then show ?thesis using QuickScan assms(1,2)
      by (simp add: quick_scan_def start_thread_def messagebox_def)
  next
    case False
    let ?g1 = "generate_command ((window w)\<lparr>strvars := (strvars (window w))
                    (risk_var := lit ''2'', level_var := lit ''3''),
                    boolvars := (boolvars (window w))(batch_var := True, verbose_var := True,
                                             random_agent_var := True)\<rparr>)"
    have run: "is_running ?g1 = is_running (window w)"
      by (simp add: generate_command_running)
    obtain g2 started where ex: "execute_sqlmap now ?g1 = (g2, started)"
      by (cases "execute_sqlmap now ?g1")
    have "length (sessions (start_thread (g2, started) w)) \<le> 1
       \<and> is_running g2 = (sessions (start_thread (g2, started) w) \<noteq> [])"
      using execute_sqlmap_one_session [OF assms(1,2) run, of now] ex by simp
    then show ?thesis using QuickScan False ex
      by (cases started) (simp_all add: quick_scan_def Let_def start_thread_def)
  qed
next
  case (LoadPreset sel)
  then show ?thesis using assms(1,2) by (simp add: load_preset_session)
next
  case (SavePreset answer)
  then show ?thesis using assms(1,2) by (simp add: save_preset_session)
next
  case (DeletePreset sel confirm)
  then show ?thesis using assms(1,2) by (simp add: delete_preset_session)
next
  case (Worker i cb now)
  show ?thesis
  proof (cases "i < length (sessions w)")
    case False
    then show ?thesis using Worker assms(1,2) by (cases cb) simp_all
  next
    case True
    with assms(1) have "i = 0" and "length (sessions w) = 1" by simp_all
    then obtain c where "sessions w = [c]" by (cases "sessions w") simp_all
    then show ?thesis using Worker \<open>i = 0\<close> assms(2)
      by (cases cb)
        (simp_all add: update_output_def execution_finished_def execution_error_def
          messagebox_def)
  qed
next
  case StopExecution
  then show ?thesis using assms(3) by simp
qed (use assms(1,2) in \<open>simp_all add: generate_command_running clear_output_def save_output_def
       messagebox_def split: option.splits\<close>)

lemma one_session_without_stop:
  assumes "StopExecution \<notin> set es"
  shows "length (sessions (run_events tc es init_world)) \<le> 1"
proof -
  have "length (sessions w) \<le> 1 \<Longrightarrow> is_running (window w) = (sessions w \<noteq> []) \<Longrightarrow>
          StopExecution \<notin> set es \<Longrightarrow>
          length (sessions (run_events tc es w)) \<le> 1
        \<and> is_running (window (run_events tc es w)) = (sessions (run_events tc es w) \<noteq> [])"
    for w
  proof (induction es arbitrary: w)
    case Nil
    then show ?case by simp
  next
    case (Cons e es)
    from Cons.prems have "e \<noteq> StopExecution" and rest: "StopExecution \<notin> set es" by auto
    with Cons.prems(1,2) have "length (sessions (step tc e w)) \<le> 1
       \<and> is_running (window (step tc e w)) = (sessions (step tc e w) \<noteq> [])"
      using step_one_session by blast
    then show ?case using Cons.IH rest by simp
  qed
  moreover have "length (sessions init_world) \<le> 1"
    and "is_running (window init_world) = (sessions init_world \<noteq> [])"
    by (simp_all add: init_world_def init_gui_def load_presets_def)
  ultimately show ?thesis using assms by blast
qed

text \<open>
  C2. After a command is generated and started, a stop request clears \<open>is_running\<close>
  while the worker lives; the next execution request starts a second worker, and two
  sessions are active.
\<close>

theorem stop_then_execute_two_sessions:
  "sessions (run_events sample_tcl
      [SetString url_var (lit ''http://t/x?id=1''), GenerateCommand,
       ExecuteSqlmap (lit ''2024-01-01 10:00:00''), StopExecution,
       ExecuteSqlmap (lit ''2024-01-01 10:00:05'')] init_world)
   = [lit ''sqlmap -u \"http://t/x?id=1\"'', lit ''sqlmap -u \"http://t/x?id=1\"'']"
  by (simp add: init_world_def init_gui_def load_presets_def generate_command_def Let_def
      command_parts_def techniques_def append_if_def default_strvars_def default_boolvars_def
      execute_sqlmap_def stop_execution_def start_thread_def messagebox_def lit_def quoted_def)

end
